theory Spec2Isabelle
  imports Complex_Main
begin

section \<open>University Data MCP server: the request-translation layer\<close>

text \<open>
  The server (\<^verbatim>\<open>server.js\<close>) is an Express application with five handlers that call one
  upstream catalog API through \<^verbatim>\<open>axios.get\<close> and answer with a JSON envelope. Each
  handler is embedded as a function of the upstream's behaviour (what \<^verbatim>\<open>axios.get\<close> does
  with the parameters it is given) and of the request; it returns the outbound calls it
  made, the HTTP status it set and the JSON body it sent.
\<close>

subsection \<open>JavaScript values\<close>

text \<open>
  JSON values as the handlers see them after parsing. A number is the exact value of the
  parsed double (every finite double is a rational). A string is a list of 8-bit
  characters, read as code units below 256. An object is its list of own properties in
  \<^verbatim>\<open>Object.keys\<close> order. \<^verbatim>\<open>undefined\<close> is \<open>None\<close> of an option type.
\<close>

datatype jsval =
    JNull
  | JBool bool
  | JNum rat
  | JStr string
  | JArr "jsval list"
  | JObj "(string \<times> jsval) list"

text \<open>Truthiness, as \<^verbatim>\<open>if (x)\<close>, \<^verbatim>\<open>!x\<close> and \<^verbatim>\<open>x || y\<close> test it.\<close>

fun truthy :: "jsval \<Rightarrow> bool" where
  "truthy JNull = False"
| "truthy (JBool b) = b"
| "truthy (JNum r) = (r \<noteq> 0)"
| "truthy (JStr s) = (s \<noteq> [])"
| "truthy (JArr xs) = True"
| "truthy (JObj kvs) = True"

text \<open>\<^verbatim>\<open>typeof x\<close> on a JSON value.\<close>

fun typeof :: "jsval \<Rightarrow> string" where
  "typeof JNull = ''object''"
| "typeof (JBool b) = ''boolean''"
| "typeof (JNum r) = ''number''"
| "typeof (JStr s) = ''string''"
| "typeof (JArr xs) = ''object''"
| "typeof (JObj kvs) = ''object''"

text \<open>\<^verbatim>\<open>xs.join(sep)\<close> on an array of strings.\<close>

fun join :: "string \<Rightarrow> string list \<Rightarrow> string" where
  "join sep [] = []"
| "join sep [x] = x"
| "join sep (x # y # ys) = x @ sep @ join sep (y # ys)"

text \<open>A value between single quotes, as the template literals \<^verbatim>\<open>'${value}'\<close> write it.\<close>

definition quoted :: "string \<Rightarrow> string" where
  "quoted s = CHR 0x27 # s @ [CHR 0x27]"

text \<open>
  Whether converting a value to a primitive throws a \<^verbatim>\<open>TypeError\<close>, as \<^verbatim>\<open>Number(v)\<close> and
  a template literal \<^verbatim>\<open>`${v}`\<close> do. A parsed JSON object inherits \<^verbatim>\<open>toString\<close> and
  \<^verbatim>\<open>valueOf\<close>; the inherited \<^verbatim>\<open>valueOf\<close> returns the object itself, so the conversion
  rests on \<^verbatim>\<open>toString\<close>, and an own property named \<^verbatim>\<open>toString\<close> (never callable in parsed
  JSON) makes it throw. An array is converted by joining the conversions of its elements
  other than \<^verbatim>\<open>null\<close>, and throws when one of them does.
\<close>

fun coercion_throws :: "jsval \<Rightarrow> bool" where
  "coercion_throws (JObj kvs) = (''toString'' \<in> set (map fst kvs))"
| "coercion_throws (JArr xs) = list_ex coercion_throws xs"
| "coercion_throws v = False"

text \<open>
  \<^verbatim>\<open>xs.map(f)\<close> where \<open>f\<close> may throw: the first error thrown ends the traversal and is
  the error of the whole expression.
\<close>

fun map_until_throw :: "('a \<Rightarrow> 'e + 'b) \<Rightarrow> 'a list \<Rightarrow> 'e + 'b list" where
  "map_until_throw f [] = Inr []"
| "map_until_throw f (x # xs) =
     (case f x of
        Inl e \<Rightarrow> Inl e
      | Inr y \<Rightarrow>
          (case map_until_throw f xs of
             Inl e \<Rightarrow> Inl e
           | Inr ys \<Rightarrow> Inr (y # ys)))"

subsection \<open>The upstream call\<close>

text \<open>
  The \<^verbatim>\<open>params\<close> object handed to \<^verbatim>\<open>axios.get\<close>. A property that is not set, or set to
  \<^verbatim>\<open>undefined\<close> (as \<^verbatim>\<open>where\<close> is by the search handler), is \<open>None\<close>: axios leaves such
  a parameter out of the query string.
\<close>

record params =
  limit_param :: "rat option"
  offset_param :: "rat option"
  where_param :: "string option"
  q_param :: "string option"
  select_param :: "string option"
  group_by_param :: "string option"

definition no_params :: params where
  "no_params = \<lparr>limit_param = None, offset_param = None, where_param = None,
     q_param = None, select_param = None, group_by_param = None\<rparr>"

text \<open>
  The payload of a successful upstream response (\<^verbatim>\<open>response.data\<close>): the catalog API's
  \<^verbatim>\<open>{total_count, results}\<close>, each property possibly missing, \<^verbatim>\<open>results\<close> an array of
  records.
\<close>

type_synonym catalog_record = "(string \<times> jsval) list"

record payload =
  total_count :: "jsval option"
  results :: "catalog_record list option"

text \<open>
  What a handler's \<^verbatim>\<open>catch\<close> reads of a thrown error: \<^verbatim>\<open>error.response\<close> (missing on a
  transport error and on an error the handler throws itself), its \<^verbatim>\<open>status\<close> and
  \<^verbatim>\<open>error.response.data?.message\<close>.
\<close>

record error_response =
  response_status :: nat
  response_message :: "jsval option"

datatype js_error = Error "error_response option"

datatype outcome = Resolved payload | Rejected js_error

subsection \<open>The response envelope\<close>

record error_obj =
  message :: jsval
  status :: nat

record query_parameters =
  qp_query :: string
  qp_state :: string
  qp_city :: string

record search_metadata =
  total :: "jsval option"
  offset_meta :: rat
  limit_meta :: rat
  query_parameters :: query_parameters

record field_descriptor =
  name :: string
  type :: string
  description :: string

record statistics_request =
  field :: "string option"
  aggregation :: "string option"
  groupBy :: "string option"
  filter_req :: "(string \<times> jsval) list option"

text \<open>
  The JSON bodies the handlers send: \<^verbatim>\<open>{success: true, data, metadata?}\<close> in the shape of
  each operation (the statistics metadata echoes the four request inputs), and the
  failure envelope \<^verbatim>\<open>{success: false, error: {message, status}}\<close>.
\<close>

datatype body =
    SearchSuccess payload search_metadata
  | RecordSuccess catalog_record
  | FieldsSuccess "field_descriptor list"
  | StatisticsSuccess payload statistics_request
  | Failure error_obj

text \<open>\<^verbatim>\<open>formatError(message, status = 400)\<close>; a call with one argument passes 400.\<close>

definition formatError :: "jsval \<Rightarrow> nat \<Rightarrow> body" where
  "formatError m s = Failure \<lparr>message = m, status = s\<rparr>"

text \<open>
  What a handler did: the outbound calls it issued, in order, the HTTP status of its reply
  (\<^verbatim>\<open>res.status(n)\<close>, 200 when only \<^verbatim>\<open>res.json\<close> is called) and the body.
\<close>

record reply =
  calls :: "params list"
  http_status :: nat
  json :: body

text \<open>
  The argument list of \<^verbatim>\<open>formatError\<close> in the generic \<^verbatim>\<open>catch\<close> blocks:
  \<^verbatim>\<open>error.response?.data?.message || generic\<close> and \<^verbatim>\<open>error.response?.status || 500\<close>.
\<close>

fun error_message :: "js_error \<Rightarrow> string \<Rightarrow> jsval" where
  "error_message (Error None) generic = JStr generic"
| "error_message (Error (Some r)) generic =
     (case response_message r of
        None \<Rightarrow> JStr generic
      | Some m \<Rightarrow> if truthy m then m else JStr generic)"

fun error_status :: "js_error \<Rightarrow> nat" where
  "error_status (Error None) = 500"
| "error_status (Error (Some r)) = (if response_status r \<noteq> 0 then response_status r else 500)"

text \<open>
  The shape every handler shares after its validation:
  \<^verbatim>\<open>try { const response = await axios.get(url, {params}); ... } catch (error) { ... }\<close>.
  The call is issued once. When it resolves, the rest of the \<^verbatim>\<open>try\<close> block runs on
  \<^verbatim>\<open>response.data\<close> and either replies (\<open>Inr\<close>, the HTTP status and the body) or throws
  (\<open>Inl\<close>); a rejected call and a thrown error both reach the \<^verbatim>\<open>catch\<close> block, which
  replies.
\<close>

definition try_await ::
  "(params \<Rightarrow> outcome) \<Rightarrow> params \<Rightarrow> (payload \<Rightarrow> js_error + nat \<times> body) \<Rightarrow>
   (js_error \<Rightarrow> nat \<times> body) \<Rightarrow> reply" where
  "try_await axios_get params try_block catch_block =
     (let sent =
            (case axios_get params of
               Rejected error \<Rightarrow> catch_block error
             | Resolved data \<Rightarrow>
                 (case try_block data of
                    Inl error \<Rightarrow> catch_block error
                  | Inr r \<Rightarrow> r))
      in \<lparr>calls = [params], http_status = fst sent, json = snd sent\<rparr>)"

subsection \<open>POST /search\<close>

text \<open>
  The request body after destructuring: each input is a value of the type the server's
  own \<^verbatim>\<open>/schema\<close> declares for it (strings and numbers), or missing.
\<close>

record search_request =
  query :: "string option"
  state :: "string option"
  city :: "string option"
  limit :: "rat option"
  offset :: "rat option"

definition or_default :: "'a option \<Rightarrow> 'a \<Rightarrow> 'a" where
  "or_default x d = (case x of None \<Rightarrow> d | Some v \<Rightarrow> v)"

definition search :: "(params \<Rightarrow> outcome) \<Rightarrow> search_request \<Rightarrow> reply" where
  "search axios_get req =
     (let query = or_default (query req) [];
          state = or_default (state req) [];
          city = or_default (city req) [];
          limit = or_default (limit req) 10;
          offset = or_default (offset req) 0
      in if limit > 100 then
           \<lparr>calls = [], http_status = 400,
            json = formatError (JStr ''Limit cannot exceed 100'') 400\<rparr>
         else
           let whereClause =
                 (if state \<noteq> [] then [''state = '' @ quoted state] else []) @
                 (if city \<noteq> [] then [''city = '' @ quoted city] else []);
               params = no_params
                 \<lparr>limit_param := Some limit,
                  offset_param := Some offset,
                  where_param :=
                    (if length whereClause > 0 then Some (join '' AND '' whereClause) else None),
                  q_param := (if query \<noteq> [] then Some query else None)\<rparr>
           in try_await axios_get params
                (\<lambda>data. Inr (200,
                   SearchSuccess data
                     \<lparr>total = total_count data, offset_meta = offset, limit_meta = limit,
                      query_parameters =
                        \<lparr>qp_query = query, qp_state = state, qp_city = city\<rparr>\<rparr>))
                (\<lambda>error. (500,
                   formatError (error_message error ''Failed to search universities'')
                     (error_status error))))"

subsection \<open>GET /getUniversity and GET /getUniversityByName\<close>

text \<open>
  \<^verbatim>\<open>response.data.results && response.data.results.length > 0\<close>, and
  \<^verbatim>\<open>response.data.results[0]\<close> where that holds.
\<close>

fun first_result :: "payload \<Rightarrow> catalog_record option" where
  "first_result data =
     (case results data of
        None \<Rightarrow> None
      | Some rs \<Rightarrow> (if length rs > 0 then Some (hd rs) else None))"

text \<open>The \<^verbatim>\<open>id\<close> and the \<^verbatim>\<open>name\<close> of the query string are strings, or missing
  (\<open>id'\<close> and \<open>name'\<close> below).\<close>

definition getUniversity :: "(params \<Rightarrow> outcome) \<Rightarrow> string option \<Rightarrow> reply" where
  "getUniversity axios_get id' =
     (if id' = None \<or> id' = Some [] then
        \<lparr>calls = [], http_status = 400,
         json = formatError (JStr ''University ID is required'') 400\<rparr>
      else
        let params = no_params
              \<lparr>where_param := Some (''objectid = '' @ quoted (the id')),
               limit_param := Some 1\<rparr>
        in try_await axios_get params
             (\<lambda>data.
                case first_result data of
                  Some r \<Rightarrow> Inr (200, RecordSuccess r)
                | None \<Rightarrow> Inr (404, formatError (JStr ''University not found'') 404))
             (\<lambda>error.
                if (case error of Error r \<Rightarrow> map_option response_status r) = Some 404 then
                  (404, formatError (JStr ''University not found'') 404)
                else
                  (500,
                   formatError (error_message error ''Failed to fetch university details'')
                     (error_status error))))"

definition getUniversityByName :: "(params \<Rightarrow> outcome) \<Rightarrow> string option \<Rightarrow> reply" where
  "getUniversityByName axios_get name' =
     (if name' = None \<or> name' = Some [] then
        \<lparr>calls = [], http_status = 400,
         json = formatError (JStr ''University name is required'') 400\<rparr>
      else
        let params = no_params
              \<lparr>where_param := Some (''name = '' @ quoted (the name')),
               limit_param := Some 1\<rparr>
        in try_await axios_get params
             (\<lambda>data.
                case first_result data of
                  Some r \<Rightarrow> Inr (200, RecordSuccess r)
                | None \<Rightarrow> Inr (404, formatError (JStr ''University not found'') 404))
             (\<lambda>error.
                (500,
                 formatError (error_message error ''Failed to fetch university details'')
                   (error_status error))))"

subsection \<open>GET /getFields\<close>

text \<open>\<^verbatim>\<open>s.includes(sub)\<close>: \<open>sub\<close> occurs in \<open>s\<close> as a contiguous run.\<close>

fun str_includes :: "string \<Rightarrow> string \<Rightarrow> bool" where
  "str_includes [] sub = (sub = [])"
| "str_includes (c # cs) sub = (take (length sub) (c # cs) = sub \<or> str_includes cs sub)"

text \<open>\<^verbatim>\<open>key.replace(/_/g, ' ')\<close>: every underscore becomes a space.\<close>

definition replace_underscores :: "string \<Rightarrow> string" where
  "replace_underscores key = map (\<lambda>c. if c = CHR ''_'' then CHR '' '' else c) key"

text \<open>
  Whether \<^verbatim>\<open>Number(s)\<close> of a string is a number rather than \<^verbatim>\<open>NaN\<close>: the string, with
  white space and line terminators trimmed, is empty, a non-decimal integer literal, or an
  optionally signed decimal literal or \<^verbatim>\<open>Infinity\<close> (the StringNumericLiteral grammar of
  ECMAScript). Of the white-space characters, those below 256 are covered.
\<close>

definition is_space :: "char \<Rightarrow> bool" where
  "is_space c = (c \<in> set [CHR 0x09, CHR 0x0A, CHR 0x0B, CHR 0x0C, CHR 0x0D, CHR 0x20, CHR 0xA0])"

definition trim :: "string \<Rightarrow> string" where
  "trim s = rev (dropWhile is_space (rev (dropWhile is_space s)))"

definition digits_in :: "string \<Rightarrow> string \<Rightarrow> bool" where
  "digits_in alphabet s = (s \<noteq> [] \<and> list_all (\<lambda>c. c \<in> set alphabet) s)"

definition is_digit :: "char \<Rightarrow> bool" where
  "is_digit c = (c \<in> set ''0123456789'')"

fun signed_integer :: "string \<Rightarrow> bool" where
  "signed_integer (c # cs) =
     (if c = CHR ''+'' \<or> c = CHR ''-'' then digits_in ''0123456789'' cs
      else digits_in ''0123456789'' (c # cs))"
| "signed_integer [] = False"

fun exponent_part_opt :: "string \<Rightarrow> bool" where
  "exponent_part_opt [] = True"
| "exponent_part_opt (c # cs) = ((c = CHR ''e'' \<or> c = CHR ''E'') \<and> signed_integer cs)"

definition unsigned_decimal :: "string \<Rightarrow> bool" where
  "unsigned_decimal s =
     (s = ''Infinity'' \<or>
      (let int_part = takeWhile is_digit s; rest = dropWhile is_digit s
       in case rest of
            c # cs \<Rightarrow>
              if c = CHR ''.'' then
                (int_part \<noteq> [] \<or> takeWhile is_digit cs \<noteq> []) \<and>
                exponent_part_opt (dropWhile is_digit cs)
              else int_part \<noteq> [] \<and> exponent_part_opt rest
          | [] \<Rightarrow> int_part \<noteq> []))"

fun decimal_literal :: "string \<Rightarrow> bool" where
  "decimal_literal (c # cs) =
     (if c = CHR ''+'' \<or> c = CHR ''-'' then unsigned_decimal cs else unsigned_decimal (c # cs))"
| "decimal_literal [] = False"

fun non_decimal_literal :: "string \<Rightarrow> bool" where
  "non_decimal_literal (z # p # ds) =
     (z = CHR ''0'' \<and>
      (if p = CHR ''x'' \<or> p = CHR ''X'' then digits_in ''0123456789abcdefABCDEF'' ds
       else if p = CHR ''o'' \<or> p = CHR ''O'' then digits_in ''01234567'' ds
       else if p = CHR ''b'' \<or> p = CHR ''B'' then digits_in ''01'' ds
       else False))"
| "non_decimal_literal s = False"

definition string_is_numeric :: "string \<Rightarrow> bool" where
  "string_is_numeric s =
     (let t = trim s in t = [] \<or> non_decimal_literal t \<or> decimal_literal t)"

text \<open>
  Whether \<^verbatim>\<open>Number(v)\<close> is a number rather than \<^verbatim>\<open>NaN\<close>, for a value whose conversion
  does not throw (\<open>number_check\<close> below tests that first). \<^verbatim>\<open>Number\<close> maps \<^verbatim>\<open>null\<close> to 0
  and a boolean to 0 or 1. An object becomes the string \<^verbatim>\<open>[object Object]\<close> first, which is not
  numeric. An array becomes its elements' strings joined by commas, \<^verbatim>\<open>null\<close> giving the
  empty string: so an empty array is numeric (the empty string is 0), an array of two or
  more elements is not (a comma is in no numeric literal), and an array of one element is
  numeric when that element's string is; the string of a number always is, the string of
  a boolean (\<^verbatim>\<open>true\<close>, \<^verbatim>\<open>false\<close>) never.
\<close>

fun is_numeric :: "jsval \<Rightarrow> bool" where
  "is_numeric JNull = True"
| "is_numeric (JBool b) = True"
| "is_numeric (JNum r) = True"
| "is_numeric (JStr s) = string_is_numeric s"
| "is_numeric (JObj kvs) = False"
| "is_numeric (JArr []) = True"
| "is_numeric (JArr [JBool b]) = False"
| "is_numeric (JArr [x]) = is_numeric x"
| "is_numeric (JArr (x # y # zs)) = False"

text \<open>
  \<^verbatim>\<open>!isNaN(Number(v))\<close> on any JSON value: the \<^verbatim>\<open>TypeError\<close> of a conversion that
  throws, or else whether the number is not \<^verbatim>\<open>NaN\<close>.
\<close>

definition number_check :: "jsval \<Rightarrow> js_error + bool" where
  "number_check v = (if coercion_throws v then Inl (Error None) else Inr (is_numeric v))"

text \<open>
  The function mapped over the keys of the sample record, given a key and its value.
  \<^verbatim>\<open>Number(sampleRecord[key])\<close> is evaluated only when the key names no date or time.
\<close>

definition describe_field :: "string \<times> jsval \<Rightarrow> js_error + field_descriptor" where
  "describe_field kv =
     (case kv of (key, v) \<Rightarrow>
        if str_includes key ''date'' \<or> str_includes key ''time'' then
          Inr \<lparr>name = key, type = ''date'', description = replace_underscores key\<rparr>
        else
          (case number_check v of
             Inl error \<Rightarrow> Inl error
           | Inr numeric \<Rightarrow>
               Inr \<lparr>name = key,
                    type = (if numeric then ''number'' else typeof v),
                    description = replace_underscores key\<rparr>))"

text \<open>
  When there is no sample record the handler throws an error of its own into its own
  \<^verbatim>\<open>catch\<close>; like a \<^verbatim>\<open>TypeError\<close> thrown while the fields are described, it has no
  \<^verbatim>\<open>response\<close>.
\<close>

definition getFields :: "(params \<Rightarrow> outcome) \<Rightarrow> reply" where
  "getFields axios_get =
     try_await axios_get (no_params\<lparr>limit_param := Some 1\<rparr>)
       (\<lambda>data.
          case first_result data of
            Some sampleRecord \<Rightarrow>
              (case map_until_throw describe_field sampleRecord of
                 Inl error \<Rightarrow> Inl error
               | Inr fields' \<Rightarrow> Inr (200, FieldsSuccess fields'))
          | None \<Rightarrow> Inl (Error None))
       (\<lambda>error.
          (500,
           formatError (error_message error ''Failed to fetch dataset fields'')
             (error_status error)))"

subsection \<open>POST /statistics\<close>

definition validAggregations :: "string list" where
  "validAggregations = [''count'', ''sum'', ''avg'', ''min'', ''max'']"

definition selectClause :: "string \<Rightarrow> string \<Rightarrow> string" where
  "selectClause aggregation' field' =
     (if aggregation' = ''count'' then ''count(*) as count''
      else aggregation' @ ''(int('' @ field' @ '')) as '' @
           (if aggregation' = ''avg'' then ''average'' else aggregation'))"

text \<open>
  The string of a value whose conversion does not throw (\<open>interpolate\<close> below tests that
  first). The decimal rendering of a number belongs to the runtime and is the parameter
  \<open>number_string\<close>.
\<close>

fun to_string :: "(rat \<Rightarrow> string) \<Rightarrow> jsval \<Rightarrow> string" where
  "to_string number_string JNull = ''null''"
| "to_string number_string (JBool b) = (if b then ''true'' else ''false'')"
| "to_string number_string (JNum r) = number_string r"
| "to_string number_string (JStr s) = s"
| "to_string number_string (JObj kvs) = ''[object Object]''"
| "to_string number_string (JArr xs) =
     join '','' (map (\<lambda>x. if x = JNull then [] else to_string number_string x) xs)"

text \<open>
  \<^verbatim>\<open>${value}\<close> inside a template literal, on any JSON value: the \<^verbatim>\<open>TypeError\<close> of a
  conversion that throws, or else the string.
\<close>

definition interpolate :: "(rat \<Rightarrow> string) \<Rightarrow> jsval \<Rightarrow> js_error + string" where
  "interpolate number_string v =
     (if coercion_throws v then Inl (Error None) else Inr (to_string number_string v))"

text \<open>
  The function mapped over the entries of the filter: a string value is quoted, any other
  value goes through \<^verbatim>\<open>`${key} = ${value}`\<close>.
\<close>

definition filter_clause ::
  "(rat \<Rightarrow> string) \<Rightarrow> string \<times> jsval \<Rightarrow> js_error + string" where
  "filter_clause number_string kv =
     (case kv of (key, v) \<Rightarrow>
        (case v of
           JStr s \<Rightarrow> Inr (key @ '' = '' @ quoted s)
         | _ \<Rightarrow>
             (case interpolate number_string v of
                Inl error \<Rightarrow> Inl error
              | Inr str \<Rightarrow> Inr (key @ '' = '' @ str))))"

text \<open>
  The inputs are strings (\<^verbatim>\<open>filter\<close> an object), or missing, as \<^verbatim>\<open>/schema\<close> declares
  them. The where clause is built inside the \<^verbatim>\<open>try\<close> block before the call: an error
  thrown there reaches the \<^verbatim>\<open>catch\<close> block with no call issued.
\<close>

definition statistics ::
  "(rat \<Rightarrow> string) \<Rightarrow> (params \<Rightarrow> outcome) \<Rightarrow> statistics_request \<Rightarrow> reply" where
  "statistics number_string axios_get req =
     (if field req = None \<or> field req = Some [] \<or>
         aggregation req = None \<or> aggregation req = Some [] then
        \<lparr>calls = [], http_status = 400,
         json = formatError (JStr ''Field and aggregation are required'') 400\<rparr>
      else if the (aggregation req) \<notin> set validAggregations then
        \<lparr>calls = [], http_status = 400,
         json = formatError
                  (JStr (''Invalid aggregation. Must be one of: '' @
                         join '', '' validAggregations)) 400\<rparr>
      else
        let catch_block = (\<lambda>error.
              (500,
               formatError (error_message error ''Failed to calculate statistics'')
                 (error_status error)));
            whereClause =
              (case filter_req req of
                 None \<Rightarrow> Inr []
               | Some entries \<Rightarrow>
                   if length entries > 0
                   then (case map_until_throw (filter_clause number_string) entries of
                           Inl error \<Rightarrow> Inl error
                         | Inr clauses \<Rightarrow> Inr (join '' AND '' clauses))
                   else Inr [])
        in case whereClause of
             Inl error \<Rightarrow>
               \<lparr>calls = [], http_status = fst (catch_block error),
                json = snd (catch_block error)\<rparr>
           | Inr whereClause \<Rightarrow>
               let params = no_params
                     \<lparr>select_param :=
                        Some (selectClause (the (aggregation req)) (the (field req))),
                      group_by_param :=
                        (case groupBy req of
                           None \<Rightarrow> None
                         | Some g \<Rightarrow> if g \<noteq> [] then Some g else None),
                      where_param := (if whereClause \<noteq> [] then Some whereClause else None)\<rparr>
               in try_await axios_get params
                    (\<lambda>data. Inr (200, StatisticsSuccess data req))
                    catch_block)"

subsection \<open>Routing\<close>

text \<open>The five routes that call the upstream, and the dispatch of a request to its handler.\<close>

datatype request =
    PostSearch search_request
  | GetUniversity "string option"
  | GetUniversityByName "string option"
  | GetFields
  | PostStatistics statistics_request

fun handle :: "(rat \<Rightarrow> string) \<Rightarrow> (params \<Rightarrow> outcome) \<Rightarrow> request \<Rightarrow> reply" where
  "handle number_string axios_get (PostSearch req) = search axios_get req"
| "handle number_string axios_get (GetUniversity id') = getUniversity axios_get id'"
| "handle number_string axios_get (GetUniversityByName name') =
     getUniversityByName axios_get name'"
| "handle number_string axios_get GetFields = getFields axios_get"
| "handle number_string axios_get (PostStatistics req) =
     statistics number_string axios_get req"

subsection \<open>The reply of a failed request\<close>

text \<open>
  The generic message each handler's \<^verbatim>\<open>catch\<close> block falls back to, and the one handler
  whose \<^verbatim>\<open>catch\<close> block treats an upstream 404 on its own.
\<close>

definition generic_message :: "request \<Rightarrow> string" where
  "generic_message rq =
     (case rq of
        PostSearch req \<Rightarrow> ''Failed to search universities''
      | GetUniversity id' \<Rightarrow> ''Failed to fetch university details''
      | GetUniversityByName name' \<Rightarrow> ''Failed to fetch university details''
      | GetFields \<Rightarrow> ''Failed to fetch dataset fields''
      | PostStatistics req \<Rightarrow> ''Failed to calculate statistics'')"

fun is_lookup_by_id :: "request \<Rightarrow> bool" where
  "is_lookup_by_id (GetUniversity id') = True"
| "is_lookup_by_id rq = False"

text \<open>
  How the HTTP status of a reply \<open>rep\<close> carrying the failure envelope \<open>e\<close> relates to
  \<^verbatim>\<open>error.status\<close>: by whether a call was issued and how it ended.
\<close>

definition failure_statuses ::
  "(params \<Rightarrow> outcome) \<Rightarrow> request \<Rightarrow> reply \<Rightarrow> error_obj \<Rightarrow> bool" where
  "failure_statuses axios_get rq rep e =
     (case calls rep of
        [] \<Rightarrow>
          http_status rep = status e \<and>
          (status e = 400 \<or> status e = 500 \<and> message e = JStr (generic_message rq))
      | p # ps \<Rightarrow>
          (case axios_get p of
             Resolved data \<Rightarrow> http_status rep = status e \<and> (status e = 404 \<or> status e = 500)
           | Rejected error \<Rightarrow>
               status e = error_status error \<and>
               http_status rep = (if is_lookup_by_id rq \<and> status e = 404 then 404 else 500) \<and>
               (error = Error None \<longrightarrow> message e = JStr (generic_message rq))))"

subsection \<open>Conversions that throw, and the type of a converted value\<close>

text \<open>
  Whether building the where clause of a statistics request throws: the filter holds a
  value that is not a string and whose conversion throws.
\<close>

definition filter_throws :: "statistics_request \<Rightarrow> bool" where
  "filter_throws req =
     (case filter_req req of
        None \<Rightarrow> False
      | Some entries \<Rightarrow> list_ex (\<lambda>kv. coercion_throws (snd kv)) entries)"

text \<open>
  Whether describing the fields of a sample record throws: a key that names no date or
  time holds a value whose conversion throws.
\<close>

definition field_throws :: "string \<times> jsval \<Rightarrow> bool" where
  "field_throws kv =
     (\<not> str_includes (fst kv) ''date'' \<and> \<not> str_includes (fst kv) ''time'' \<and>
      coercion_throws (snd kv))"

text \<open>
  The type of a field whose key names no date or time and whose value converts, by the
  kind of the value.
\<close>

definition type_of_value :: "jsval \<Rightarrow> string" where
  "type_of_value v =
     (case v of
        JNull \<Rightarrow> ''number''
      | JBool b \<Rightarrow> ''number''
      | JNum r \<Rightarrow> ''number''
      | JStr s \<Rightarrow> if string_is_numeric s then ''number'' else ''string''
      | JArr xs \<Rightarrow> if is_numeric (JArr xs) then ''number'' else ''object''
      | JObj kvs \<Rightarrow> ''object'')"

section \<open>Properties\<close>

subsection \<open>The try/catch shape\<close>

lemma calls_try_await: "calls (try_await axios_get p t c) = [p]"
  by (simp add: try_await_def Let_def)

lemma try_await_failure:
  assumes "json (try_await axios_get p t c) = Failure e"
    and "\<And>d r. t d = Inr r \<Longrightarrow> snd r = Failure e \<Longrightarrow>
           fst r = status e \<and> (status e = 404 \<or> status e = 500)"
    and "\<And>d. t d = Inl (Error None) \<or> (\<exists>r. t d = Inr r)"
    and "c (Error None) = (500, formatError (JStr (generic_message rq)) 500)"
    and "\<And>err. snd (c err) = Failure e \<Longrightarrow>
           status e = error_status err \<and>
           fst (c err) = (if is_lookup_by_id rq \<and> status e = 404 then 404 else 500) \<and>
           (err = Error None \<longrightarrow> message e = JStr (generic_message rq))"
  shows "failure_statuses axios_get rq (try_await axios_get p t c) e"
proof (cases "axios_get p")
  case (Rejected err)
  then show ?thesis
    using assms(1) assms(5)[of err]
    by (simp add: failure_statuses_def try_await_def Let_def)
next
  case (Resolved d)
  show ?thesis
  proof (cases "t d")
    case (Inr r)
    then show ?thesis
      using Resolved assms(1) assms(2)[of d r]
      by (simp add: failure_statuses_def try_await_def Let_def)
  next
    case (Inl err)
    then have err: "err = Error None"
      using assms(3)[of d] by auto
    have "e = \<lparr>message = JStr (generic_message rq), status = 500\<rparr>"
      using Resolved Inl err assms(1) assms(4)
      by (simp add: try_await_def Let_def formatError_def)
    then show ?thesis
      using Resolved Inl err assms(4)
      by (simp add: failure_statuses_def try_await_def Let_def)
  qed
qed

lemma error_status_404:
  "((case err of Error r \<Rightarrow> map_option response_status r) = Some 404) = (error_status err = 404)"
  by (cases err; cases "case err of Error r \<Rightarrow> r") auto

subsection \<open>Conversions that throw\<close>

lemma describe_field_throws:
  "field_throws kv \<Longrightarrow> describe_field kv = Inl (Error None)"
  by (cases kv) (simp add: describe_field_def number_check_def field_throws_def)

lemma describe_field_returns:
  "\<not> field_throws kv \<Longrightarrow>
   describe_field kv =
     Inr \<lparr>name = fst kv,
          type = (if str_includes (fst kv) ''date'' \<or> str_includes (fst kv) ''time''
                  then ''date'' else type_of_value (snd kv)),
          description = map (\<lambda>c. if c = CHR ''_'' then CHR '' '' else c) (fst kv)\<rparr>"
  by (cases kv; cases "snd kv")
    (auto simp add: describe_field_def number_check_def field_throws_def type_of_value_def
       replace_underscores_def)

lemma describe_fields_throw:
  "list_ex field_throws xs \<Longrightarrow> map_until_throw describe_field xs = Inl (Error None)"
proof (induction xs)
  case Nil
  then show ?case by simp
next
  case (Cons x xs)
  show ?case
  proof (cases "field_throws x")
    case True
    then show ?thesis
      by (simp add: describe_field_throws)
  next
    case False
    then show ?thesis
      using Cons by (simp add: describe_field_returns)
  qed
qed

lemma describe_fields_return:
  "\<not> list_ex field_throws xs \<Longrightarrow>
   map_until_throw describe_field xs =
     Inr (map (\<lambda>kv.
            \<lparr>name = fst kv,
             type = (if str_includes (fst kv) ''date'' \<or> str_includes (fst kv) ''time''
                     then ''date'' else type_of_value (snd kv)),
             description = map (\<lambda>c. if c = CHR ''_'' then CHR '' '' else c) (fst kv)\<rparr>) xs)"
  by (induction xs) (simp_all add: describe_field_returns)

lemma filter_clause_throws:
  "coercion_throws (snd kv) \<Longrightarrow> filter_clause number_string kv = Inl (Error None)"
  by (cases kv; cases "snd kv") (simp_all add: filter_clause_def interpolate_def)

lemma filter_clause_returns:
  "\<not> coercion_throws (snd kv) \<Longrightarrow> \<exists>c. filter_clause number_string kv = Inr c"
  by (cases kv; cases "snd kv") (simp_all add: filter_clause_def interpolate_def)

lemma filter_clauses_throw:
  "list_ex (\<lambda>kv. coercion_throws (snd kv)) es \<Longrightarrow>
   map_until_throw (filter_clause number_string) es = Inl (Error None)"
proof (induction es)
  case Nil
  then show ?case by simp
next
  case (Cons x xs)
  show ?case
  proof (cases "coercion_throws (snd x)")
    case True
    then show ?thesis
      by (simp add: filter_clause_throws)
  next
    case False
    then obtain c where "filter_clause number_string x = Inr c"
      using filter_clause_returns by blast
    then show ?thesis
      using Cons False by simp
  qed
qed

lemma filter_clauses_return:
  "\<not> list_ex (\<lambda>kv. coercion_throws (snd kv)) es \<Longrightarrow>
   \<exists>cs. map_until_throw (filter_clause number_string) es = Inr cs"
proof (induction es)
  case Nil
  then show ?case by simp
next
  case (Cons x xs)
  then obtain c cs where "filter_clause number_string x = Inr c"
    and "map_until_throw (filter_clause number_string) xs = Inr cs"
    using filter_clause_returns [of x number_string] by auto
  then show ?case by simp
qed

text \<open>The two ways a statistics request that passes validation goes on.\<close>

lemma statistics_thrown:
  assumes "field req = Some f" and "f \<noteq> []"
    and "aggregation req = Some a" and "a \<in> set validAggregations"
    and "filter_throws req"
  shows "statistics number_string axios_get req =
           \<lparr>calls = [], http_status = 500,
            json = Failure \<lparr>message = JStr ''Failed to calculate statistics'', status = 500\<rparr>\<rparr>"
proof -
  have "a \<noteq> []"
    using assms(4) by (auto simp add: validAggregations_def)
  moreover obtain es where es: "filter_req req = Some es"
    "list_ex (\<lambda>kv. coercion_throws (snd kv)) es"
    using assms(5) by (auto simp add: filter_throws_def split: option.splits)
  moreover have "es \<noteq> []"
    using es(2) by auto
  ultimately show ?thesis
    using assms(1-4)
    by (simp add: statistics_def Let_def filter_clauses_throw formatError_def)
qed

lemma statistics_called:
  assumes "field req = Some f" and "f \<noteq> []"
    and "aggregation req = Some a" and "a \<in> set validAggregations"
    and "\<not> filter_throws req"
  shows "\<exists>w. statistics number_string axios_get req =
           try_await axios_get
             (no_params
                \<lparr>select_param := Some (selectClause a f),
                 group_by_param :=
                   (case groupBy req of
                      None \<Rightarrow> None
                    | Some g \<Rightarrow> if g \<noteq> [] then Some g else None),
                 where_param := (if w \<noteq> [] then Some w else None)\<rparr>)
             (\<lambda>data. Inr (200, StatisticsSuccess data req))
             (\<lambda>error.
                (500,
                 formatError (error_message error ''Failed to calculate statistics'')
                   (error_status error)))"
    (is "\<exists>w. ?called w")
proof -
  have a: "a \<noteq> []"
    using assms(4) by (auto simp add: validAggregations_def)
  show ?thesis
  proof (cases "filter_req req")
    case None
    then have "?called []"
      using assms(1-4) a by (simp add: statistics_def Let_def)
    then show ?thesis by (rule exI [of ?called])
  next
    case (Some es)
    show ?thesis
    proof (cases "es = []")
      case True
      then have "?called []"
        using assms(1-4) a Some by (simp add: statistics_def Let_def)
      then show ?thesis by (rule exI [of ?called])
    next
      case False
      have "\<not> list_ex (\<lambda>kv. coercion_throws (snd kv)) es"
        using assms(5) Some by (simp add: filter_throws_def)
      then obtain cs where cs: "map_until_throw (filter_clause number_string) es = Inr cs"
        using filter_clauses_return by blast
      have "?called (join '' AND '' cs)"
        using assms(1-4) a Some False by (simp add: statistics_def Let_def cs)
      then show ?thesis by (rule exI [of ?called])
    qed
  qed
qed

subsection \<open>Failure replies, handler by handler\<close>

lemma search_failure:
  assumes "json (search axios_get req) = Failure e"
  shows "failure_statuses axios_get (PostSearch req) (search axios_get req) e"
proof (cases "or_default (limit req) 10 > 100")
  case True
  then show ?thesis
    using assms by (auto simp add: search_def Let_def formatError_def failure_statuses_def)
next
  case False
  obtain p m where
    eq: "search axios_get req =
           try_await axios_get p (\<lambda>data. Inr (200, SearchSuccess data (m data)))
             (\<lambda>error. (500, formatError (error_message error ''Failed to search universities'')
                     (error_status error)))"
    using False by (simp add: search_def Let_def)
  show ?thesis
    unfolding eq
  proof (rule try_await_failure)
    show "json (try_await axios_get p (\<lambda>data. Inr (200, SearchSuccess data (m data)))
             (\<lambda>error. (500, formatError (error_message error ''Failed to search universities'')
                     (error_status error)))) = Failure e"
      using assms eq by simp
  qed (auto simp add: formatError_def generic_message_def)
qed

lemma lookup_try_block:
  "(case first_result d of
      Some r \<Rightarrow> Inr (200, RecordSuccess r)
    | None \<Rightarrow> Inr (404, formatError (JStr ''University not found'') 404)) = Inr r \<Longrightarrow>
   snd r = Failure e \<Longrightarrow> fst r = status e \<and> (status e = 404 \<or> status e = 500)"
  by (cases "first_result d") (auto simp add: formatError_def)

lemma getUniversity_failure:
  assumes "json (getUniversity axios_get id') = Failure e"
  shows "failure_statuses axios_get (GetUniversity id') (getUniversity axios_get id') e"
proof (cases "id' = None \<or> id' = Some []")
  case True
  then show ?thesis
    using assms by (auto simp add: getUniversity_def formatError_def failure_statuses_def)
next
  case False
  obtain p where eq: "getUniversity axios_get id' =
      try_await axios_get p
        (\<lambda>data.
           case first_result data of
             Some r \<Rightarrow> Inr (200, RecordSuccess r)
           | None \<Rightarrow> Inr (404, formatError (JStr ''University not found'') 404))
        (\<lambda>error.
           if error_status error = 404 then
             (404, formatError (JStr ''University not found'') 404)
           else
             (500,
              formatError (error_message error ''Failed to fetch university details'')
                (error_status error)))"
    using False by (auto simp add: getUniversity_def Let_def error_status_404)
  show ?thesis
    unfolding eq
  proof (rule try_await_failure)
    show "json (try_await axios_get p
        (\<lambda>data.
           case first_result data of
             Some r \<Rightarrow> Inr (200, RecordSuccess r)
           | None \<Rightarrow> Inr (404, formatError (JStr ''University not found'') 404))
        (\<lambda>error.
           if error_status error = 404 then
             (404, formatError (JStr ''University not found'') 404)
           else
             (500,
              formatError (error_message error ''Failed to fetch university details'')
                (error_status error)))) = Failure e"
      using assms eq by simp
  qed (auto simp add: formatError_def generic_message_def lookup_try_block
       split: option.splits if_splits)
qed

lemma getUniversityByName_failure:
  assumes "json (getUniversityByName axios_get name') = Failure e"
  shows "failure_statuses axios_get (GetUniversityByName name')
           (getUniversityByName axios_get name') e"
proof (cases "name' = None \<or> name' = Some []")
  case True
  then show ?thesis
    using assms by (auto simp add: getUniversityByName_def formatError_def failure_statuses_def)
next
  case False
  obtain p where eq: "getUniversityByName axios_get name' =
      try_await axios_get p
        (\<lambda>data.
           case first_result data of
             Some r \<Rightarrow> Inr (200, RecordSuccess r)
           | None \<Rightarrow> Inr (404, formatError (JStr ''University not found'') 404))
        (\<lambda>error.
           (500,
            formatError (error_message error ''Failed to fetch university details'')
              (error_status error)))"
    using False by (auto simp add: getUniversityByName_def Let_def)
  show ?thesis
    unfolding eq
  proof (rule try_await_failure)
    show "json (try_await axios_get p
        (\<lambda>data.
           case first_result data of
             Some r \<Rightarrow> Inr (200, RecordSuccess r)
           | None \<Rightarrow> Inr (404, formatError (JStr ''University not found'') 404))
        (\<lambda>error.
           (500,
            formatError (error_message error ''Failed to fetch university details'')
              (error_status error)))) = Failure e"
      using assms eq by simp
  qed (auto simp add: formatError_def generic_message_def lookup_try_block
       split: option.splits)
qed

lemma getFields_failure:
  assumes "json (getFields axios_get) = Failure e"
  shows "failure_statuses axios_get GetFields (getFields axios_get) e"
  unfolding getFields_def
proof (rule try_await_failure)
  fix d
  show "(case first_result d of
           Some sampleRecord \<Rightarrow>
             (case map_until_throw describe_field sampleRecord of
                Inl error \<Rightarrow> Inl error
              | Inr fields' \<Rightarrow> Inr (200, FieldsSuccess fields'))
         | None \<Rightarrow> Inl (Error None)) = Inl (Error None) \<or>
        (\<exists>r. (case first_result d of
           Some sampleRecord \<Rightarrow>
             (case map_until_throw describe_field sampleRecord of
                Inl error \<Rightarrow> Inl error
              | Inr fields' \<Rightarrow> Inr (200, FieldsSuccess fields'))
         | None \<Rightarrow> Inl (Error None)) = Inr r)"
  proof (cases "first_result d")
    case None
    then show ?thesis by simp
  next
    case (Some sampleRecord)
    then show ?thesis
      by (cases "list_ex field_throws sampleRecord")
        (simp_all add: describe_fields_throw describe_fields_return)
  qed
qed (use assms in \<open>auto simp add: getFields_def formatError_def generic_message_def
       split: option.splits sum.splits\<close>)

lemma statistics_failure:
  assumes "json (statistics number_string axios_get req) = Failure e"
  shows "failure_statuses axios_get (PostStatistics req)
           (statistics number_string axios_get req) e"
proof (cases "field req = None \<or> field req = Some [] \<or>
              aggregation req = None \<or> aggregation req = Some []")
  case True
  then show ?thesis
    using assms by (auto simp add: statistics_def formatError_def failure_statuses_def)
next
  case present: False
  show ?thesis
  proof (cases "the (aggregation req) \<in> set validAggregations")
    case False
    then show ?thesis
      using assms present
      by (auto simp add: statistics_def formatError_def failure_statuses_def)
  next
    case True
    obtain f a where fa: "field req = Some f" "f \<noteq> []" "aggregation req = Some a"
      "a \<in> set validAggregations"
      using present True by auto
    show ?thesis
    proof (cases "filter_throws req")
      case True
      show ?thesis
        using assms
        by (auto simp add: statistics_thrown [OF fa True] failure_statuses_def
            generic_message_def)
    next
      case False
      from statistics_called [OF fa False, of number_string axios_get]
      obtain w where
        eq: "statistics number_string axios_get req =
           try_await axios_get
             (no_params
                \<lparr>select_param := Some (selectClause a f),
                 group_by_param :=
                   (case groupBy req of
                      None \<Rightarrow> None
                    | Some g \<Rightarrow> if g \<noteq> [] then Some g else None),
                 where_param := (if w \<noteq> [] then Some w else None)\<rparr>)
             (\<lambda>data. Inr (200, StatisticsSuccess data req))
             (\<lambda>error.
                (500,
                 formatError (error_message error ''Failed to calculate statistics'')
                   (error_status error)))"
        by (rule exE)
      show ?thesis
        unfolding eq
        by (rule try_await_failure, rule assms [unfolded eq])
          (auto simp add: formatError_def generic_message_def)
    qed
  qed
qed

subsection \<open>The claims\<close>

text \<open>
  C1, as the code has it. A failure envelope's \<^verbatim>\<open>error.status\<close> and the HTTP status agree
  whenever no upstream call was rejected: both are 400 when the request is refused by
  validation, both are 500 (with the handler's generic message) when the handler throws
  before the call, and both are 404 or both 500 when the call resolved. When the call is
  rejected, \<^verbatim>\<open>error.status\<close> is the upstream status if there is one (and it is not 0),
  else 500, while the HTTP status is 500 whatever the upstream status is; only
  lookup-by-id answers an upstream 404 with HTTP 404. A rejection without an upstream
  response gives 500 in both places and the handler's generic message.
\<close>

theorem failure_status_of_every_handler:
  assumes "json (handle number_string axios_get rq) = Failure e"
  shows "case calls (handle number_string axios_get rq) of
           [] \<Rightarrow>
             http_status (handle number_string axios_get rq) = status e \<and>
             (status e = 400 \<or> status e = 500 \<and> message e = JStr (generic_message rq))
         | p # ps \<Rightarrow>
             (case axios_get p of
                Resolved data \<Rightarrow>
                  http_status (handle number_string axios_get rq) = status e \<and>
                  (status e = 404 \<or> status e = 500)
              | Rejected error \<Rightarrow>
                  status e = error_status error \<and>
                  http_status (handle number_string axios_get rq) =
                    (if is_lookup_by_id rq \<and> status e = 404 then 404 else 500) \<and>
                  (error = Error None \<longrightarrow> message e = JStr (generic_message rq)))"
proof -
  have "failure_statuses axios_get rq (handle number_string axios_get rq) e"
    using assms
    by (cases rq)
      (simp_all add: search_failure getUniversity_failure getUniversityByName_failure
         getFields_failure statistics_failure)
  then show ?thesis
    by (simp add: failure_statuses_def)
qed

theorem failure_status_of_every_handler_witness:
  "json (handle (\<lambda>r. [])
      (\<lambda>p. Rejected (Error (Some
         \<lparr>response_status = 429, response_message = Some (JStr ''Too many requests'')\<rparr>)))
      (GetUniversityByName (Some ''MIT''))) =
     Failure \<lparr>message = JStr ''Too many requests'', status = 429\<rparr> \<and>
   http_status (handle (\<lambda>r. [])
      (\<lambda>p. Rejected (Error (Some
         \<lparr>response_status = 429, response_message = Some (JStr ''Too many requests'')\<rparr>)))
      (GetUniversityByName (Some ''MIT''))) = 500 \<and>
   handle (\<lambda>r. []) (\<lambda>p. Rejected (Error None))
      (PostStatistics
         \<lparr>field = Some ''population'', aggregation = Some ''sum'', groupBy = None,
          filter_req = Some [(''a'', JObj [(''toString'', JNum 1)])]\<rparr>) =
     \<lparr>calls = [], http_status = 500,
      json = Failure \<lparr>message = JStr ''Failed to calculate statistics'', status = 500\<rparr>\<rparr>"
  using failure_status_of_every_handler [of "\<lambda>r. []"
      "\<lambda>p. Rejected (Error (Some
         \<lparr>response_status = 429, response_message = Some (JStr ''Too many requests'')\<rparr>))"
      "GetUniversityByName (Some ''MIT'')"
      "\<lparr>message = JStr ''Too many requests'', status = 429\<rparr>"]
  by (simp add: getUniversityByName_def try_await_def formatError_def Let_def
      statistics_def validAggregations_def filter_clause_def interpolate_def)

text \<open>
  C1 as stated fails: when the upstream rejects a search with status 503, the envelope
  carries 503 and the HTTP status is 500.
\<close>

theorem search_upstream_503_counterexample:
  "http_status (search
      (\<lambda>p. Rejected (Error (Some \<lparr>response_status = 503, response_message = None\<rparr>)))
      \<lparr>query = None, state = None, city = None, limit = None, offset = None\<rparr>) = 500 \<and>
   json (search
      (\<lambda>p. Rejected (Error (Some \<lparr>response_status = 503, response_message = None\<rparr>)))
      \<lparr>query = None, state = None, city = None, limit = None, offset = None\<rparr>) =
     Failure \<lparr>message = JStr ''Failed to search universities'', status = 503\<rparr>"
  by (simp add: search_def or_default_def try_await_def formatError_def Let_def)

text \<open>
  C2. A search that passes validation issues one call. Its \<^verbatim>\<open>where\<close> parameter is the
  \<^verbatim>\<open>state = '...'\<close> clause and the \<^verbatim>\<open>city = '...'\<close> clause joined by \<^verbatim>\<open>AND\<close>, each clause
  there exactly when its input is a non-empty string, and the parameter is absent (not an
  empty string) when neither is; \<^verbatim>\<open>q\<close> is set exactly when \<^verbatim>\<open>query\<close> is non-empty.
\<close>

theorem search_where_and_q:
  assumes "or_default (limit req) 10 \<le> 100"
  shows "map where_param (calls (search axios_get req)) =
           [let s = or_default (state req) []; c = or_default (city req) [] in
            if s \<noteq> [] \<and> c \<noteq> [] then
              Some (''state = '' @ [CHR 0x27] @ s @ [CHR 0x27] @ '' AND '' @
                    ''city = '' @ [CHR 0x27] @ c @ [CHR 0x27])
            else if s \<noteq> [] then Some (''state = '' @ [CHR 0x27] @ s @ [CHR 0x27])
            else if c \<noteq> [] then Some (''city = '' @ [CHR 0x27] @ c @ [CHR 0x27])
            else None] \<and>
         map q_param (calls (search axios_get req)) =
           [let q = or_default (query req) [] in if q \<noteq> [] then Some q else None]"
proof -
  have "\<not> or_default (limit req) 10 > 100"
    using assms by simp
  then show ?thesis
    by (simp add: search_def Let_def quoted_def no_params_def calls_try_await)
qed

theorem search_where_and_q_witness:
  "map where_param (calls (search (\<lambda>p. Rejected (Error None))
      \<lparr>query = Some ''tech'', state = Some ''CA'', city = Some ''Pasadena'',
       limit = None, offset = None\<rparr>)) =
     [Some (''state = '' @ [CHR 0x27] @ ''CA'' @ [CHR 0x27] @ '' AND city = '' @
            [CHR 0x27] @ ''Pasadena'' @ [CHR 0x27])] \<and>
   map q_param (calls (search (\<lambda>p. Rejected (Error None))
      \<lparr>query = Some ''tech'', state = Some ''CA'', city = Some ''Pasadena'',
       limit = None, offset = None\<rparr>)) = [Some ''tech'']"
  using search_where_and_q [of "\<lparr>query = Some ''tech'', state = Some ''CA'',
      city = Some ''Pasadena'', limit = None, offset = None\<rparr>" "\<lambda>p. Rejected (Error None)"]
  by (simp add: or_default_def)

text \<open>
  C3. For a statistics request with a field and a valid aggregation, the derived select
  expression is \<^verbatim>\<open>count(*) as count\<close> for \<^verbatim>\<open>count\<close>, whatever the field, and otherwise
  the aggregation applied to \<^verbatim>\<open>int(field)\<close>, aliased \<^verbatim>\<open>average\<close> for \<^verbatim>\<open>avg\<close> and by the
  aggregation's own name for \<^verbatim>\<open>sum\<close>, \<^verbatim>\<open>min\<close> and \<^verbatim>\<open>max\<close>. It is the select parameter
  of the one call the handler issues; no call is issued when building the where clause
  throws, as it does on the filter \<^verbatim>\<open>{a: {toString: 1}}\<close>.
\<close>

theorem statistics_select:
  assumes "field req = Some f" and "f \<noteq> []"
    and "aggregation req = Some a" and "a \<in> set validAggregations"
  shows "selectClause a f =
           (if a = ''count'' then ''count(*) as count''
            else if a = ''sum'' then ''sum(int('' @ f @ '')) as sum''
            else if a = ''avg'' then ''avg(int('' @ f @ '')) as average''
            else if a = ''min'' then ''min(int('' @ f @ '')) as min''
            else ''max(int('' @ f @ '')) as max'') \<and>
         map select_param (calls (statistics number_string axios_get req)) =
           (if filter_throws req then [] else [Some (selectClause a f)]) \<and>
         calls (statistics number_string axios_get
           \<lparr>field = Some ''population'', aggregation = Some ''sum'', groupBy = None,
            filter_req = Some [(''a'', JObj [(''toString'', JNum 1)])]\<rparr>) = []"
proof -
  consider "a = ''count''" | "a = ''sum''" | "a = ''avg''" | "a = ''min''" | "a = ''max''"
    using assms(4) by (auto simp add: validAggregations_def)
  then have sel: "selectClause a f =
           (if a = ''count'' then ''count(*) as count''
            else if a = ''sum'' then ''sum(int('' @ f @ '')) as sum''
            else if a = ''avg'' then ''avg(int('' @ f @ '')) as average''
            else if a = ''min'' then ''min(int('' @ f @ '')) as min''
            else ''max(int('' @ f @ '')) as max'')"
  proof cases
    case 1 then show ?thesis by (simp add: selectClause_def)
  next
    case 2 then show ?thesis by (simp add: selectClause_def)
  next
    case 3 then show ?thesis by (simp add: selectClause_def)
  next
    case 4 then show ?thesis by (simp add: selectClause_def)
  next
    case 5 then show ?thesis by (simp add: selectClause_def)
  qed
  have sent: "map select_param (calls (statistics number_string axios_get req)) =
           (if filter_throws req then [] else [Some (selectClause a f)])"
  proof (cases "filter_throws req")
    case True
    then show ?thesis
      by (simp add: statistics_thrown [OF assms True])
  next
    case False
    from statistics_called [OF assms False, of number_string axios_get]
    obtain w where
      "statistics number_string axios_get req =
           try_await axios_get
             (no_params
                \<lparr>select_param := Some (selectClause a f),
                 group_by_param :=
                   (case groupBy req of
                      None \<Rightarrow> None
                    | Some g \<Rightarrow> if g \<noteq> [] then Some g else None),
                 where_param := (if w \<noteq> [] then Some w else None)\<rparr>)
             (\<lambda>data. Inr (200, StatisticsSuccess data req))
             (\<lambda>error.
                (500,
                 formatError (error_message error ''Failed to calculate statistics'')
                   (error_status error)))"
      by (rule exE)
    then show ?thesis
      using False by (simp add: calls_try_await no_params_def)
  qed
  have thrown: "calls (statistics number_string axios_get
           \<lparr>field = Some ''population'', aggregation = Some ''sum'', groupBy = None,
            filter_req = Some [(''a'', JObj [(''toString'', JNum 1)])]\<rparr>) = []"
    by (simp add: statistics_def validAggregations_def filter_clause_def interpolate_def
        Let_def)
  show ?thesis
    using sel sent thrown by (intro conjI)
qed

theorem statistics_select_witness:
  "map select_param (calls (statistics (\<lambda>r. []) (\<lambda>p. Rejected (Error None))
      \<lparr>field = Some ''population'', aggregation = Some ''avg'', groupBy = None,
       filter_req = Some [(''state'', JStr ''CA''), (''level'', JNum 4)]\<rparr>)) =
     [Some ''avg(int(population)) as average'']"
proof -
  have "\<not> filter_throws \<lparr>field = Some ''population'', aggregation = Some ''avg'',
      groupBy = None, filter_req = Some [(''state'', JStr ''CA''), (''level'', JNum 4)]\<rparr>"
    by (simp add: filter_throws_def)
  then show ?thesis
    using statistics_select [of "\<lparr>field = Some ''population'', aggregation = Some ''avg'',
      groupBy = None, filter_req = Some [(''state'', JStr ''CA''), (''level'', JNum 4)]\<rparr>"
      "''population''" "''avg''" "\<lambda>r. []" "\<lambda>p. Rejected (Error None)"]
    by (simp add: validAggregations_def)
qed

text \<open>
  C4. A search request whose limit exceeds 100 is answered with status 400 and the failure
  envelope, and no outbound call is issued.
\<close>

theorem search_limit_over_100_rejected:
  assumes "limit req = Some l" and "l > 100"
  shows "search axios_get req =
           \<lparr>calls = [], http_status = 400,
            json = Failure \<lparr>message = JStr ''Limit cannot exceed 100'', status = 400\<rparr>\<rparr>"
  using assms by (simp add: search_def or_default_def formatError_def Let_def)

theorem search_limit_over_100_rejected_witness:
  "search (\<lambda>p. Resolved \<lparr>total_count = None, results = None\<rparr>)
     \<lparr>query = None, state = Some ''CA'', city = None, limit = Some 101, offset = None\<rparr> =
   \<lparr>calls = [], http_status = 400,
    json = Failure \<lparr>message = JStr ''Limit cannot exceed 100'', status = 400\<rparr>\<rparr>"
  using search_limit_over_100_rejected
    [of "\<lparr>query = None, state = Some ''CA'', city = None, limit = Some 101, offset = None\<rparr>" 101]
  by simp

text \<open>
  C5, as the code has it. A statistics request without a field or without an
  aggregation, or with an aggregation outside the five valid kinds, is answered with
  status 400 and no outbound call. The message lists the five valid kinds when field and
  aggregation are both present and the aggregation is not valid; when either is missing
  the message is that field and aggregation are required, whatever the aggregation is.
\<close>

theorem statistics_validation:
  assumes "field req = None \<or> field req = Some [] \<or>
           aggregation req = None \<or> aggregation req = Some [] \<or>
           (\<exists>a. aggregation req = Some a \<and> a \<notin> set validAggregations)"
  shows "statistics number_string axios_get req =
           \<lparr>calls = [], http_status = 400,
            json = Failure
              \<lparr>message = JStr
                 (if field req = None \<or> field req = Some [] \<or>
                     aggregation req = None \<or> aggregation req = Some []
                  then ''Field and aggregation are required''
                  else ''Invalid aggregation. Must be one of: count, sum, avg, min, max''),
               status = 400\<rparr>\<rparr>"
proof (cases "field req = None \<or> field req = Some [] \<or>
              aggregation req = None \<or> aggregation req = Some []")
  case True
  then show ?thesis
    by (simp add: statistics_def formatError_def)
next
  case False
  then obtain a where a: "aggregation req = Some a" "a \<notin> set validAggregations"
    using assms by blast
  have msg: "join '', '' validAggregations = ''count, sum, avg, min, max''"
    by (simp add: validAggregations_def)
  show ?thesis
    using False a by (simp add: statistics_def formatError_def msg)
qed

theorem statistics_validation_witness:
  "statistics (\<lambda>r. []) (\<lambda>p. Rejected (Error None))
      \<lparr>field = Some ''population'', aggregation = Some ''median'', groupBy = None,
       filter_req = None\<rparr> =
     \<lparr>calls = [], http_status = 400,
      json = Failure
        \<lparr>message = JStr ''Invalid aggregation. Must be one of: count, sum, avg, min, max'',
         status = 400\<rparr>\<rparr>"
proof -
  have "''median'' \<notin> set validAggregations"
    by (simp add: validAggregations_def)
  then show ?thesis
    using statistics_validation [of "\<lparr>field = Some ''population'',
      aggregation = Some ''median'', groupBy = None, filter_req = None\<rparr>" "\<lambda>r. []"
      "\<lambda>p. Rejected (Error None)"]
    by simp
qed

text \<open>
  C5 as stated fails: with no field and the unrecognized aggregation \<^verbatim>\<open>median\<close>, the
  message says that field and aggregation are required and lists no aggregation kind.
\<close>

theorem statistics_missing_field_counterexample:
  "json (statistics (\<lambda>r. []) (\<lambda>p. Rejected (Error None))
      \<lparr>field = None, aggregation = Some ''median'', groupBy = None, filter_req = None\<rparr>) =
     Failure \<lparr>message = JStr ''Field and aggregation are required'', status = 400\<rparr> \<and>
   ''median'' \<notin> set validAggregations \<and>
   \<not> str_includes ''Field and aggregation are required'' ''count''"
  by (simp add: statistics_def formatError_def validAggregations_def)

text \<open>
  C6, as the code has it. Field discovery answers with one descriptor per key of the
  sample record, in order: the name is the key and the description is the key with each
  underscore replaced by a space. The type is \<^verbatim>\<open>date\<close> if the key contains \<^verbatim>\<open>date\<close> or
  \<^verbatim>\<open>time\<close>; else \<^verbatim>\<open>number\<close> if \<^verbatim>\<open>Number\<close> of the value is not \<^verbatim>\<open>NaN\<close>, which holds for
  every number, for \<^verbatim>\<open>null\<close>, \<^verbatim>\<open>true\<close> and \<^verbatim>\<open>false\<close>, for a string that is blank or a numeric
  literal, and for an array whose string is one; else the value's \<^verbatim>\<open>typeof\<close>, which is
  then \<^verbatim>\<open>string\<close> or \<^verbatim>\<open>object\<close> and never \<^verbatim>\<open>boolean\<close>. When a value under a key that
  names no date or time cannot be converted, the reply is the 500 failure envelope.
  The sample \<^verbatim>\<open>{name: "Foo U", enrollment_date: "2020-01-01", objectid: "5"}\<close> gives the
  types \<^verbatim>\<open>string\<close>, \<^verbatim>\<open>date\<close> and \<^verbatim>\<open>number\<close>.
\<close>

theorem field_discovery:
  assumes "\<And>p. axios_get p = Resolved data"
    and "results data = Some (sampleRecord # others)"
  shows "getFields axios_get =
           (if list_ex field_throws sampleRecord then
              \<lparr>calls = [no_params\<lparr>limit_param := Some 1\<rparr>], http_status = 500,
               json = Failure
                 \<lparr>message = JStr ''Failed to fetch dataset fields'', status = 500\<rparr>\<rparr>
            else
              \<lparr>calls = [no_params\<lparr>limit_param := Some 1\<rparr>], http_status = 200,
               json = FieldsSuccess
                 (map (\<lambda>kv.
                    \<lparr>name = fst kv,
                     type =
                       (if str_includes (fst kv) ''date'' \<or> str_includes (fst kv) ''time''
                        then ''date''
                        else case snd kv of
                               JNull \<Rightarrow> ''number''
                             | JBool b \<Rightarrow> ''number''
                             | JNum r \<Rightarrow> ''number''
                             | JStr s \<Rightarrow> if string_is_numeric s then ''number'' else ''string''
                             | JArr xs \<Rightarrow>
                                 if is_numeric (JArr xs) then ''number'' else ''object''
                             | JObj kvs \<Rightarrow> ''object''),
                     description =
                       map (\<lambda>c. if c = CHR ''_'' then CHR '' '' else c) (fst kv)\<rparr>)
                  sampleRecord)\<rparr>) \<and>
         map string_is_numeric
           ['''', '' 5 '', ''5'', ''-1.5e3'', ''.5'', ''0x1F'', ''Infinity'',
            ''2020-01-01'', ''Foo U'', ''12px'', ''1,2''] =
           [True, True, True, True, True, True, True, False, False, False, False] \<and>
         map is_numeric
           [JArr [], JArr [JStr ''5''], JArr [JNull], JArr [JArr [JNum 7]],
            JArr [JBool True], JArr [JNum 1, JNum 2], JArr [JObj []]] =
           [True, True, True, True, False, False, False] \<and>
         map coercion_throws
           [JObj [(''toString'', JNum 1)], JArr [JNum 1, JObj [(''toString'', JNull)]],
            JObj [(''lon'', JNum 1)], JArr [], JStr ''toString''] =
           [True, True, False, False, False] \<and>
         map_until_throw describe_field
           [(''name'', JStr ''Foo U''), (''enrollment_date'', JStr ''2020-01-01''),
            (''objectid'', JStr ''5'')] =
           Inr [\<lparr>name = ''name'', type = ''string'', description = ''name''\<rparr>,
                \<lparr>name = ''enrollment_date'', type = ''date'',
                 description = ''enrollment date''\<rparr>,
                \<lparr>name = ''objectid'', type = ''number'', description = ''objectid''\<rparr>]"
proof -
  have first: "first_result data = Some sampleRecord"
    using assms(2) by simp
  have reply: "getFields axios_get =
           (if list_ex field_throws sampleRecord then
              \<lparr>calls = [no_params\<lparr>limit_param := Some 1\<rparr>], http_status = 500,
               json = Failure
                 \<lparr>message = JStr ''Failed to fetch dataset fields'', status = 500\<rparr>\<rparr>
            else
              \<lparr>calls = [no_params\<lparr>limit_param := Some 1\<rparr>], http_status = 200,
               json = FieldsSuccess
                 (map (\<lambda>kv.
                    \<lparr>name = fst kv,
                     type =
                       (if str_includes (fst kv) ''date'' \<or> str_includes (fst kv) ''time''
                        then ''date'' else type_of_value (snd kv)),
                     description =
                       map (\<lambda>c. if c = CHR ''_'' then CHR '' '' else c) (fst kv)\<rparr>)
                  sampleRecord)\<rparr>)"
    by (simp add: getFields_def try_await_def assms(1) first describe_fields_throw
        describe_fields_return formatError_def del: first_result.simps)
  have strings: "map string_is_numeric
           ['''', '' 5 '', ''5'', ''-1.5e3'', ''.5'', ''0x1F'', ''Infinity'',
            ''2020-01-01'', ''Foo U'', ''12px'', ''1,2''] =
           [True, True, True, True, True, True, True, False, False, False, False]"
    by code_simp
  have arrays: "map is_numeric
           [JArr [], JArr [JStr ''5''], JArr [JNull], JArr [JArr [JNum 7]],
            JArr [JBool True], JArr [JNum 1, JNum 2], JArr [JObj []]] =
           [True, True, True, True, False, False, False]"
    by code_simp
  have throwing: "map coercion_throws
           [JObj [(''toString'', JNum 1)], JArr [JNum 1, JObj [(''toString'', JNull)]],
            JObj [(''lon'', JNum 1)], JArr [], JStr ''toString''] =
           [True, True, False, False, False]"
    by simp
  have sample: "map_until_throw describe_field
           [(''name'', JStr ''Foo U''), (''enrollment_date'', JStr ''2020-01-01''),
            (''objectid'', JStr ''5'')] =
           Inr [\<lparr>name = ''name'', type = ''string'', description = ''name''\<rparr>,
                \<lparr>name = ''enrollment_date'', type = ''date'',
                 description = ''enrollment date''\<rparr>,
                \<lparr>name = ''objectid'', type = ''number'', description = ''objectid''\<rparr>]"
    by code_simp
  have kinds: "type_of_value = (\<lambda>v. case v of
                               JNull \<Rightarrow> ''number''
                             | JBool b \<Rightarrow> ''number''
                             | JNum r \<Rightarrow> ''number''
                             | JStr s \<Rightarrow> if string_is_numeric s then ''number'' else ''string''
                             | JArr xs \<Rightarrow>
                                 if is_numeric (JArr xs) then ''number'' else ''object''
                             | JObj kvs \<Rightarrow> ''object'')"
    by (rule ext) (simp add: type_of_value_def)
  have "getFields axios_get =
           (if list_ex field_throws sampleRecord then
              \<lparr>calls = [no_params\<lparr>limit_param := Some 1\<rparr>], http_status = 500,
               json = Failure
                 \<lparr>message = JStr ''Failed to fetch dataset fields'', status = 500\<rparr>\<rparr>
            else
              \<lparr>calls = [no_params\<lparr>limit_param := Some 1\<rparr>], http_status = 200,
               json = FieldsSuccess
                 (map (\<lambda>kv.
                    \<lparr>name = fst kv,
                     type =
                       (if str_includes (fst kv) ''date'' \<or> str_includes (fst kv) ''time''
                        then ''date''
                        else case snd kv of
                               JNull \<Rightarrow> ''number''
                             | JBool b \<Rightarrow> ''number''
                             | JNum r \<Rightarrow> ''number''
                             | JStr s \<Rightarrow> if string_is_numeric s then ''number'' else ''string''
                             | JArr xs \<Rightarrow>
                                 if is_numeric (JArr xs) then ''number'' else ''object''
                             | JObj kvs \<Rightarrow> ''object''),
                     description =
                       map (\<lambda>c. if c = CHR ''_'' then CHR '' '' else c) (fst kv)\<rparr>)
                  sampleRecord)\<rparr>)"
    using reply unfolding kinds .
  then show ?thesis
    using strings arrays throwing sample by (intro conjI)
qed

theorem field_discovery_witness:
  "getFields (\<lambda>p. Resolved
      \<lparr>total_count = Some (JNum 1),
       results = Some [[(''name'', JStr ''Foo U''), (''enrollment_date'', JStr ''2020-01-01''),
                        (''objectid'', JStr ''5''), (''po_box'', JNull),
                        (''location'', JObj [(''lon'', JNum 1), (''lat'', JNum 2)])]]\<rparr>) =
     \<lparr>calls = [no_params\<lparr>limit_param := Some 1\<rparr>], http_status = 200,
      json = FieldsSuccess
       [\<lparr>name = ''name'', type = ''string'', description = ''name''\<rparr>,
        \<lparr>name = ''enrollment_date'', type = ''date'', description = ''enrollment date''\<rparr>,
        \<lparr>name = ''objectid'', type = ''number'', description = ''objectid''\<rparr>,
        \<lparr>name = ''po_box'', type = ''number'', description = ''po box''\<rparr>,
        \<lparr>name = ''location'', type = ''object'', description = ''location''\<rparr>]\<rparr>"
proof -
  have numeric: "map string_is_numeric [''Foo U'', ''5''] = [False, True]"
    by code_simp
  have converts: "\<not> list_ex field_throws
      [(''name'', JStr ''Foo U''), (''enrollment_date'', JStr ''2020-01-01''),
       (''objectid'', JStr ''5''), (''po_box'', JNull),
       (''location'', JObj [(''lon'', JNum 1), (''lat'', JNum 2)])]"
    by (simp add: field_throws_def)
  show ?thesis
    using numeric converts field_discovery [of
      "\<lambda>p. Resolved
        \<lparr>total_count = Some (JNum 1),
         results = Some [[(''name'', JStr ''Foo U''), (''enrollment_date'', JStr ''2020-01-01''),
                          (''objectid'', JStr ''5''), (''po_box'', JNull),
                          (''location'', JObj [(''lon'', JNum 1), (''lat'', JNum 2)])]]\<rparr>"
      "\<lparr>total_count = Some (JNum 1),
        results = Some [[(''name'', JStr ''Foo U''), (''enrollment_date'', JStr ''2020-01-01''),
                         (''objectid'', JStr ''5''), (''po_box'', JNull),
                         (''location'', JObj [(''lon'', JNum 1), (''lat'', JNum 2)])]]\<rparr>"
      "[(''name'', JStr ''Foo U''), (''enrollment_date'', JStr ''2020-01-01''),
        (''objectid'', JStr ''5''), (''po_box'', JNull),
        (''location'', JObj [(''lon'', JNum 1), (''lat'', JNum 2)])]" "[]"]
    by simp
qed

text \<open>
  C6 as stated fails: the value \<^verbatim>\<open>true\<close> under the key \<^verbatim>\<open>active\<close> is no number and its own
  runtime type is \<^verbatim>\<open>boolean\<close>, yet the field is typed \<^verbatim>\<open>number\<close>.
\<close>

theorem field_discovery_boolean_counterexample:
  "json (getFields (\<lambda>p. Resolved
      \<lparr>total_count = Some (JNum 1), results = Some [[(''active'', JBool True)]]\<rparr>)) =
     FieldsSuccess [\<lparr>name = ''active'', type = ''number'', description = ''active''\<rparr>] \<and>
   typeof (JBool True) = ''boolean''"
  by (simp add: getFields_def try_await_def describe_field_def number_check_def
      replace_underscores_def)

text \<open>
  C7. When the upstream call of a lookup by id or by name resolves with no record, the
  reply has status 404 and the failure envelope with message \<^verbatim>\<open>University not found\<close>.
\<close>

theorem lookup_zero_records_not_found:
  assumes "v \<noteq> []" and "\<And>p. axios_get p = Resolved data"
    and "results data = None \<or> results data = Some []"
  shows "http_status (getUniversity axios_get (Some v)) = 404 \<and>
         json (getUniversity axios_get (Some v)) =
           Failure \<lparr>message = JStr ''University not found'', status = 404\<rparr> \<and>
         http_status (getUniversityByName axios_get (Some v)) = 404 \<and>
         json (getUniversityByName axios_get (Some v)) =
           Failure \<lparr>message = JStr ''University not found'', status = 404\<rparr>"
proof -
  have "first_result data = None"
    using assms(3) by auto
  then show ?thesis
    using assms(1)
    by (simp add: getUniversity_def getUniversityByName_def Let_def try_await_def assms(2)
        formatError_def)
qed

theorem lookup_zero_records_not_found_witness:
  "http_status (getUniversity (\<lambda>p. Resolved \<lparr>total_count = Some (JNum 0), results = Some []\<rparr>)
      (Some ''42'')) = 404 \<and>
   json (getUniversity (\<lambda>p. Resolved \<lparr>total_count = Some (JNum 0), results = Some []\<rparr>)
      (Some ''42'')) = Failure \<lparr>message = JStr ''University not found'', status = 404\<rparr> \<and>
   http_status (getUniversityByName
      (\<lambda>p. Resolved \<lparr>total_count = Some (JNum 0), results = Some []\<rparr>) (Some ''42'')) = 404 \<and>
   json (getUniversityByName
      (\<lambda>p. Resolved \<lparr>total_count = Some (JNum 0), results = Some []\<rparr>) (Some ''42'')) =
     Failure \<lparr>message = JStr ''University not found'', status = 404\<rparr>"
  using lookup_zero_records_not_found [of "''42''"
      "\<lambda>p. Resolved \<lparr>total_count = Some (JNum 0), results = Some []\<rparr>"
      "\<lparr>total_count = Some (JNum 0), results = Some []\<rparr>"]
  by simp

text \<open>
  C8. A search giving only state and limit, against an upstream that resolves, is
  answered with status 200, the upstream payload as data, and metadata holding the
  payload's \<^verbatim>\<open>total_count\<close>, offset 0, the limit, and the query parameters with the empty
  string for query and city.
\<close>

theorem search_state_limit_scenario:
  assumes "query req = None" and "city req = None" and "offset req = None"
    and "state req = Some s" and "limit req = Some l" and "l \<le> 100"
    and "\<And>p. axios_get p = Resolved data"
  shows "http_status (search axios_get req) = 200 \<and>
         json (search axios_get req) =
           SearchSuccess data
             \<lparr>total = total_count data, offset_meta = 0, limit_meta = l,
              query_parameters = \<lparr>qp_query = [], qp_state = s, qp_city = []\<rparr>\<rparr>"
proof -
  have "\<not> l > 100"
    using assms(6) by simp
  then show ?thesis
    using assms(1-5) by (simp add: search_def Let_def or_default_def try_await_def assms(7))
qed

theorem search_state_limit_scenario_witness:
  "http_status (search (\<lambda>p. Resolved \<lparr>total_count = Some (JNum 712), results = Some []\<rparr>)
      \<lparr>query = None, state = Some ''CA'', city = None, limit = Some 5, offset = None\<rparr>) = 200 \<and>
   json (search (\<lambda>p. Resolved \<lparr>total_count = Some (JNum 712), results = Some []\<rparr>)
      \<lparr>query = None, state = Some ''CA'', city = None, limit = Some 5, offset = None\<rparr>) =
     SearchSuccess \<lparr>total_count = Some (JNum 712), results = Some []\<rparr>
       \<lparr>total = Some (JNum 712), offset_meta = 0, limit_meta = 5,
        query_parameters = \<lparr>qp_query = [], qp_state = ''CA'', qp_city = []\<rparr>\<rparr>"
  using search_state_limit_scenario [of
      "\<lparr>query = None, state = Some ''CA'', city = None, limit = Some 5, offset = None\<rparr>"
      "''CA''" 5 "\<lambda>p. Resolved \<lparr>total_count = Some (JNum 712), results = Some []\<rparr>"
      "\<lparr>total_count = Some (JNum 712), results = Some []\<rparr>"]
  by simp

text \<open>
  C9. A search whose limit is at most 100 is not refused: whatever the limit and the
  offset are (negative, zero, not whole numbers), one call is issued with exactly these
  values as its \<^verbatim>\<open>limit\<close> and \<^verbatim>\<open>offset\<close>, and the reply's status is 200 or 500, never
  the 400 of a validation error.
\<close>

theorem search_limit_offset_forwarded:
  assumes "or_default (limit req) 10 \<le> 100"
  shows "map limit_param (calls (search axios_get req)) = [Some (or_default (limit req) 10)] \<and>
         map offset_param (calls (search axios_get req)) = [Some (or_default (offset req) 0)] \<and>
         http_status (search axios_get req) \<in> {200, 500}"
proof -
  have "\<not> or_default (limit req) 10 > 100"
    using assms by simp
  then show ?thesis
    by (simp add: search_def Let_def no_params_def try_await_def
        split: outcome.splits)
qed

theorem search_limit_offset_forwarded_witness:
  "map limit_param (calls (search (\<lambda>p. Resolved \<lparr>total_count = None, results = Some []\<rparr>)
      \<lparr>query = None, state = None, city = None, limit = Some (- 5 / 2),
       offset = Some (- 1 / 3)\<rparr>)) = [Some (- 5 / 2)] \<and>
   map offset_param (calls (search (\<lambda>p. Resolved \<lparr>total_count = None, results = Some []\<rparr>)
      \<lparr>query = None, state = None, city = None, limit = Some (- 5 / 2),
       offset = Some (- 1 / 3)\<rparr>)) = [Some (- 1 / 3)] \<and>
   http_status (search (\<lambda>p. Resolved \<lparr>total_count = None, results = Some []\<rparr>)
      \<lparr>query = None, state = None, city = None, limit = Some (- 5 / 2),
       offset = Some (- 1 / 3)\<rparr>) \<in> {200, 500}"
  using search_limit_offset_forwarded [of "\<lparr>query = None, state = None, city = None,
      limit = Some (- 5 / 2), offset = Some (- 1 / 3)\<rparr>"
      "\<lambda>p. Resolved \<lparr>total_count = None, results = Some []\<rparr>"]
  by (simp add: or_default_def)

text \<open>
  C10. When the upstream call is rejected with status 404, lookup by id answers 404 with
  \<^verbatim>\<open>University not found\<close>; lookup by name answers through the generic path: HTTP
  status 500, \<^verbatim>\<open>error.status\<close> 404, and the upstream message if there is a truthy one,
  else the generic message.
\<close>

theorem lookup_upstream_404:
  assumes "v \<noteq> []"
    and "\<And>p. axios_get p = Rejected (Error (Some r))" and "response_status r = 404"
  shows "http_status (getUniversity axios_get (Some v)) = 404 \<and>
         json (getUniversity axios_get (Some v)) =
           Failure \<lparr>message = JStr ''University not found'', status = 404\<rparr> \<and>
         http_status (getUniversityByName axios_get (Some v)) = 500 \<and>
         json (getUniversityByName axios_get (Some v)) =
           Failure \<lparr>message =
                      (case response_message r of
                         None \<Rightarrow> JStr ''Failed to fetch university details''
                       | Some m \<Rightarrow>
                           if truthy m then m else JStr ''Failed to fetch university details''),
                    status = 404\<rparr>"
  using assms(1,3)
  by (simp add: getUniversity_def getUniversityByName_def Let_def try_await_def assms(2)
      formatError_def)

theorem lookup_upstream_404_witness:
  "http_status (getUniversity
      (\<lambda>p. Rejected (Error (Some \<lparr>response_status = 404, response_message = Some (JStr ''Unknown dataset'')\<rparr>)))
      (Some ''42'')) = 404 \<and>
   json (getUniversity
      (\<lambda>p. Rejected (Error (Some \<lparr>response_status = 404, response_message = Some (JStr ''Unknown dataset'')\<rparr>)))
      (Some ''42'')) = Failure \<lparr>message = JStr ''University not found'', status = 404\<rparr> \<and>
   http_status (getUniversityByName
      (\<lambda>p. Rejected (Error (Some \<lparr>response_status = 404, response_message = Some (JStr ''Unknown dataset'')\<rparr>)))
      (Some ''42'')) = 500 \<and>
   json (getUniversityByName
      (\<lambda>p. Rejected (Error (Some \<lparr>response_status = 404, response_message = Some (JStr ''Unknown dataset'')\<rparr>)))
      (Some ''42'')) = Failure \<lparr>message = JStr ''Unknown dataset'', status = 404\<rparr>"
  using lookup_upstream_404 [of "''42''"
      "\<lambda>p. Rejected (Error (Some \<lparr>response_status = 404, response_message = Some (JStr ''Unknown dataset'')\<rparr>))"
      "\<lparr>response_status = 404, response_message = Some (JStr ''Unknown dataset'')\<rparr>"]
  by simp

end
